theory Spec2Isabelle
  imports Complex_Main
begin

section \<open>JavaScript numbers\<close>

text \<open>
  A JavaScript number is a finite value, one of the two infinities, or NaN. Finite
  values are taken as exact reals: rounding, overflow to an infinity and the sign of
  zero are not part of this model. The operations below are the ones
  \<^verbatim>\<open>normalizePitch\<close> uses, with the special values treated as ECMAScript does.
\<close>

datatype jsnum = NaN | NegInf | Num real | PosInf

text \<open>\<^verbatim>\<open>Math.min(a, b)\<close> and \<^verbatim>\<open>Math.max(a, b)\<close>: NaN if either argument is NaN.\<close>

fun Math_min :: "jsnum \<Rightarrow> jsnum \<Rightarrow> jsnum" where
  "Math_min NaN b = NaN"
| "Math_min a NaN = NaN"
| "Math_min NegInf b = NegInf"
| "Math_min a NegInf = NegInf"
| "Math_min PosInf b = b"
| "Math_min a PosInf = a"
| "Math_min (Num x) (Num y) = Num (min x y)"

fun Math_max :: "jsnum \<Rightarrow> jsnum \<Rightarrow> jsnum" where
  "Math_max NaN b = NaN"
| "Math_max a NaN = NaN"
| "Math_max PosInf b = PosInf"
| "Math_max a PosInf = PosInf"
| "Math_max NegInf b = b"
| "Math_max a NegInf = a"
| "Math_max (Num x) (Num y) = Num (max x y)"

text \<open>\<^verbatim>\<open>a - b\<close>\<close>

fun js_sub :: "jsnum \<Rightarrow> jsnum \<Rightarrow> jsnum" where
  "js_sub NaN b = NaN"
| "js_sub a NaN = NaN"
| "js_sub PosInf PosInf = NaN"
| "js_sub NegInf NegInf = NaN"
| "js_sub PosInf b = PosInf"
| "js_sub NegInf b = NegInf"
| "js_sub (Num x) PosInf = NegInf"
| "js_sub (Num x) NegInf = PosInf"
| "js_sub (Num x) (Num y) = Num (x - y)"

text \<open>\<^verbatim>\<open>a * b\<close>: an infinity times zero is NaN.\<close>

definition js_neg :: "jsnum \<Rightarrow> jsnum" where
  "js_neg a = (case a of NaN \<Rightarrow> NaN | NegInf \<Rightarrow> PosInf | PosInf \<Rightarrow> NegInf | Num x \<Rightarrow> Num (- x))"

fun js_mul :: "jsnum \<Rightarrow> jsnum \<Rightarrow> jsnum" where
  "js_mul NaN b = NaN"
| "js_mul a NaN = NaN"
| "js_mul (Num x) (Num y) = Num (x * y)"
| "js_mul (Num x) b = (if x = 0 then NaN else if 0 < x then b else js_neg b)"
| "js_mul a (Num y) = (if y = 0 then NaN else if 0 < y then a else js_neg a)"
| "js_mul PosInf b = b"
| "js_mul NegInf b = js_neg b"

text \<open>
  \<^verbatim>\<open>a / b\<close>: a finite value over an infinity is zero, an infinity over an infinity and
  zero over zero are NaN, a non-zero value over zero is an infinity (the zero divisor
  is taken as \<^verbatim>\<open>+0\<close>).
\<close>

fun js_div :: "jsnum \<Rightarrow> jsnum \<Rightarrow> jsnum" where
  "js_div NaN b = NaN"
| "js_div a NaN = NaN"
| "js_div (Num x) (Num y) =
     (if y = 0 then (if x = 0 then NaN else if 0 < x then PosInf else NegInf)
      else Num (x / y))"
| "js_div (Num x) b = Num 0"
| "js_div a (Num y) = (if 0 \<le> y then a else js_neg a)"
| "js_div a b = NaN"

text \<open>
  \<^verbatim>\<open>Math.pow(x, 0.5)\<close>, the only exponent the program uses: NaN for NaN and for a
  negative finite base (the exponent is not an integer), \<^verbatim>\<open>+Infinity\<close> for both
  infinities, and the real power otherwise.
\<close>

definition Math_pow_half :: "jsnum \<Rightarrow> jsnum" where
  "Math_pow_half b =
     (case b of
        NaN \<Rightarrow> NaN
      | NegInf \<Rightarrow> PosInf
      | PosInf \<Rightarrow> PosInf
      | Num x \<Rightarrow> (if x < 0 then NaN else Num (x powr (1 / 2))))"

section \<open>The loudness normalizer\<close>

text \<open>
  \<^verbatim>\<open>function normalizePitch(metering)\<close>, lines 101 to 108 of \<^verbatim>\<open>src/app/index.tsx\<close>.
\<close>

definition normalizePitch :: "jsnum \<Rightarrow> jsnum" where
  "normalizePitch metering =
     (let minDb = Num (- 60);
          maxDb = Num (- 10);
          clampedMetering = Math_max minDb (Math_min maxDb metering);
          normalizedValue =
            js_mul (js_div (js_sub clampedMetering minDb) (js_sub maxDb minDb)) (Num 100);
          normalizedValue' = js_mul (Math_pow_half (js_div normalizedValue (Num 100))) (Num 100)
      in Math_max (Num 0) (Math_min (Num 100) normalizedValue'))"

text \<open>
  The reference pipeline of the specification, written over the reals from its four
  steps: clamp, linear rescale, square-root curve, clamp.
\<close>

definition clamp_spec :: "real \<Rightarrow> real \<Rightarrow> real \<Rightarrow> real" where
  "clamp_spec lo hi x = (if x < lo then lo else if hi < x then hi else x)"

definition normalize_spec :: "real \<Rightarrow> real" where
  "normalize_spec db =
     (let clamped = clamp_spec (- 60) (- 10) db;
          linear = (clamped - (- 60)) / ((- 10) - (- 60)) * 100;
          scaled = sqrt (linear / 100) * 100
      in clamp_spec 0 100 scaled)"

section \<open>The rolling sample window\<close>

definition RECORDING_TIME_LIMIT :: nat where
  "RECORDING_TIME_LIMIT = 60000"

definition REFRESH_INTERVAL :: nat where
  "REFRESH_INTERVAL = 100"

definition MAX_DATA_POINTS :: nat where
  "MAX_DATA_POINTS = 600"

text \<open>
  \<^verbatim>\<open>xs.slice(start)\<close>: a negative start counts from the end, and the start is
  clipped to the array.
\<close>

definition slice_from :: "int \<Rightarrow> 'a list \<Rightarrow> 'a list" where
  "slice_from start xs =
     (let len = int (length xs);
          k = (if start < 0 then max (len + start) 0 else min start len)
      in drop (nat k) xs)"

text \<open>
  The updater that \<^verbatim>\<open>updatePitchData(newPitch)\<close> hands to \<^verbatim>\<open>setPitchData\<close>
  (lines 110 to 118): React applies it to the current window and stores the result.
\<close>

definition updatePitchData :: "'a list \<Rightarrow> 'a \<Rightarrow> 'a list" where
  "updatePitchData currentData newPitch =
     (let updatedData = currentData @ [newPitch]
      in if length updatedData > MAX_DATA_POINTS
         then slice_from (- int MAX_DATA_POINTS) updatedData
         else updatedData)"

section \<open>The recording session controller\<close>

text \<open>
  The values a field of the backend's status object can hold, and \<^verbatim>\<open>typeof\<close>.
\<close>

datatype jsval = JSUndefined | JSNull | JSBoolean bool | JSNumber jsnum | JSString string

definition typeof :: "jsval \<Rightarrow> string" where
  "typeof v =
     (case v of
        JSUndefined \<Rightarrow> ''undefined''
      | JSNull \<Rightarrow> ''object''
      | JSBoolean b \<Rightarrow> ''boolean''
      | JSNumber n \<Rightarrow> ''number''
      | JSString s \<Rightarrow> ''string'')"

record status =
  status_isRecording :: bool
  status_metering :: jsval

type_synonym handle = nat
type_synonym timer_id = nat

datatype error = Error string

text \<open>
  What a scheduled timer runs. The sampling tick holds the capture handle it polls, the
  deadline holds the value of \<^verbatim>\<open>recording\<close> that its \<^verbatim>\<open>stopRecording\<close> closure
  captured, the elapsed-time tick holds \<^verbatim>\<open>startTime\<close>.
\<close>

datatype callback = SampleTick handle | Deadline "handle option" | ElapsedTick int

record timer =
  repeating :: bool
  delay :: nat
  action :: callback

record timer_pair =
  timeout :: timer_id
  interval :: timer_id

text \<open>
  The component's state hooks and refs, together with the parts of the runtime the
  controller acts on: the table of live timers, the log of calls to
  \<^verbatim>\<open>stopAndUnloadAsync\<close> and the lines written by \<^verbatim>\<open>console.error\<close>.
  \<^verbatim>\<open>undefined\<close> and \<^verbatim>\<open>null\<close> are \<open>None\<close>. A timer id is a positive integer,
  so a stored id is truthy.
\<close>

record app =
  recording :: "handle option"
  pitch :: "jsnum option"
  pitchData :: "jsnum list"
  isRecording :: bool
  elapsedTime :: int
  intervalRef :: "timer_id option"
  timerRef :: "timer_pair option"
  timers :: "timer_id \<rightharpoonup> timer"
  next_timer :: timer_id
  next_handle :: handle
  unload_calls :: "handle list"
  console :: "string list"

text \<open>The state of the freshly mounted screen (lines 13 to 19).\<close>

definition initial_app :: app where
  "initial_app =
     \<lparr>recording = None, pitch = None, pitchData = [], isRecording = False, elapsedTime = 0,
      intervalRef = None, timerRef = None, timers = Map.empty, next_timer = 1,
      next_handle = 0, unload_calls = [], console = []\<rparr>"

text \<open>
  A statement either completes or throws; in both cases the state it has reached is
  kept. \<open>try_catch\<close> is \<^verbatim>\<open>try { ... } catch (err) { ... }\<close>.
\<close>

datatype result = Returned app | Thrown error app

definition bind :: "result \<Rightarrow> (app \<Rightarrow> result) \<Rightarrow> result" where
  "bind r f = (case r of Returned w \<Rightarrow> f w | Thrown e w \<Rightarrow> Thrown e w)"

definition try_catch :: "result \<Rightarrow> (error \<Rightarrow> app \<Rightarrow> result) \<Rightarrow> result" where
  "try_catch r handler = (case r of Returned w \<Rightarrow> Returned w | Thrown e w \<Rightarrow> handler e w)"

definition console_error :: "string \<Rightarrow> error \<Rightarrow> app \<Rightarrow> result" where
  "console_error msg err w = Returned (w\<lparr>console := console w @ [msg]\<rparr>)"

text \<open>\<^verbatim>\<open>setInterval\<close>, \<^verbatim>\<open>setTimeout\<close>, \<^verbatim>\<open>clearInterval\<close>, \<^verbatim>\<open>clearTimeout\<close>.\<close>

definition schedule :: "timer \<Rightarrow> app \<Rightarrow> timer_id \<times> app" where
  "schedule tm w =
     (next_timer w, w\<lparr>timers := (timers w)(next_timer w \<mapsto> tm), next_timer := Suc (next_timer w)\<rparr>)"

definition setInterval :: "callback \<Rightarrow> nat \<Rightarrow> app \<Rightarrow> timer_id \<times> app" where
  "setInterval cb ms w = schedule \<lparr>repeating = True, delay = ms, action = cb\<rparr> w"

definition setTimeout :: "callback \<Rightarrow> nat \<Rightarrow> app \<Rightarrow> timer_id \<times> app" where
  "setTimeout cb ms w = schedule \<lparr>repeating = False, delay = ms, action = cb\<rparr> w"

definition clearInterval :: "timer_id \<Rightarrow> app \<Rightarrow> app" where
  "clearInterval t w = w\<lparr>timers := (timers w)(t := None)\<rparr>"

definition clearTimeout :: "timer_id \<Rightarrow> app \<Rightarrow> app" where
  "clearTimeout t w = w\<lparr>timers := (timers w)(t := None)\<rparr>"

text \<open>
  A call of the audio backend: whether it rejects is decided outside the program and
  enters as the flag \<open>fails\<close>.
\<close>

definition backend_call :: "bool \<Rightarrow> string \<Rightarrow> app \<Rightarrow> result" where
  "backend_call fails name w = (if fails then Thrown (Error name) w else Returned w)"

definition stopAndUnloadAsync :: "bool \<Rightarrow> handle \<Rightarrow> app \<Rightarrow> result" where
  "stopAndUnloadAsync fails h w =
     backend_call fails ''stopAndUnloadAsync'' (w\<lparr>unload_calls := unload_calls w @ [h]\<rparr>)"

text \<open>
  \<^verbatim>\<open>async function stopRecording()\<close>, lines 67 to 88. \<^verbatim>\<open>recording\<close> is a state
  variable: the body reads the value captured by the render that created the closure,
  which is the argument \<open>rec\<close>; the refs are read from the current state.
\<close>

definition stopRecording :: "handle option \<Rightarrow> bool \<Rightarrow> app \<Rightarrow> result" where
  "stopRecording rec unload_fails w =
     (let w1 = (case intervalRef w of
                  None \<Rightarrow> w
                | Some i \<Rightarrow> (clearInterval i w)\<lparr>intervalRef := None\<rparr>);
          w2 = (case timerRef w1 of
                  None \<Rightarrow> w1
                | Some p \<Rightarrow>
                    (clearInterval (interval p) (clearTimeout (timeout p) w1))\<lparr>timerRef := None\<rparr>)
      in bind
           (case rec of
              None \<Rightarrow> Returned w2
            | Some h \<Rightarrow>
                try_catch (stopAndUnloadAsync unload_fails h w2)
                  (console_error ''Error stopping recording:''))
           (\<lambda>w3. Returned (w3\<lparr>recording := None, isRecording := False\<rparr>)))"

text \<open>
  The cleanup of the mount effect (lines 21 to 25) calls the \<^verbatim>\<open>stopRecording\<close> of the
  first render, where \<^verbatim>\<open>recording\<close> is still \<^verbatim>\<open>undefined\<close>.
\<close>

definition teardown :: "bool \<Rightarrow> app \<Rightarrow> result" where
  "teardown unload_fails w = stopRecording None unload_fails w"

text \<open>\<^verbatim>\<open>function onRecordingStatusUpdate(status)\<close>, lines 90 to 99.\<close>

definition onRecordingStatusUpdate :: "status \<Rightarrow> app \<Rightarrow> app" where
  "onRecordingStatusUpdate st w =
     (if status_isRecording st then
        (case status_metering st of
           JSNumber metering \<Rightarrow>
             (let normalizedPitch = normalizePitch metering
              in w\<lparr>pitch := Some normalizedPitch,
                    pitchData := updatePitchData (pitchData w) normalizedPitch\<rparr>)
         | _ \<Rightarrow> w)
      else w)"

text \<open>
  \<^verbatim>\<open>async function startRecording()\<close>, lines 27 to 65. \<open>rec\<close> is the value of
  \<^verbatim>\<open>recording\<close> in the render whose \<^verbatim>\<open>stopRecording\<close> the deadline callback calls,
  \<open>outcome\<close> says which backend call rejects, if any, and \<open>now\<close> is \<^verbatim>\<open>Date.now()\<close>.
  Between lines 51 and 61 \<^verbatim>\<open>timerRef.current\<close> holds the bare timeout id; no other
  code runs in between, and the model stores the final pair.
\<close>

datatype start_outcome = PermissionThrows | AudioModeThrows | PrepareThrows | StartThrows | Started

definition startRecording :: "handle option \<Rightarrow> start_outcome \<Rightarrow> int \<Rightarrow> app \<Rightarrow> result" where
  "startRecording rec outcome now w =
     try_catch
       (bind (backend_call (outcome = PermissionThrows) ''requestPermissionsAsync'' w) (\<lambda>w.
        bind (backend_call (outcome = AudioModeThrows) ''setAudioModeAsync'' w) (\<lambda>w.
        let newRecording = next_handle w;
            w = w\<lparr>next_handle := Suc newRecording\<rparr>
        in
        bind (backend_call (outcome = PrepareThrows) ''prepareToRecordAsync'' w) (\<lambda>w.
        bind (backend_call (outcome = StartThrows) ''startAsync'' (w\<lparr>recording := Some newRecording\<rparr>)) (\<lambda>w.
        let w = w\<lparr>isRecording := True, pitchData := [], elapsedTime := 0\<rparr>;
            (i, w) = setInterval (SampleTick newRecording) REFRESH_INTERVAL w;
            w = w\<lparr>intervalRef := Some i\<rparr>;
            (t, w) = setTimeout (Deadline rec) RECORDING_TIME_LIMIT w;
            startTime = now;
            (timeInterval, w) = setInterval (ElapsedTick startTime) 1000 w
        in Returned (w\<lparr>timerRef := Some \<lparr>timeout = t, interval = timeInterval\<rparr>\<rparr>))))))
       (console_error ''Failed to start recording'')"

text \<open>
  The runtime delivering timer \<open>t\<close>: a timer that is not in the table does not run; a
  one-shot timer leaves the table when it runs. \<open>st\<close> is what \<^verbatim>\<open>getStatusAsync\<close>
  resolves to (\<open>None\<close> when it rejects), \<open>now\<close> is \<^verbatim>\<open>Date.now()\<close>.
\<close>

definition fire :: "timer_id \<Rightarrow> status option \<Rightarrow> int \<Rightarrow> bool \<Rightarrow> app \<Rightarrow> result" where
  "fire t st now unload_fails w =
     (case timers w t of
        None \<Rightarrow> Returned w
      | Some tm \<Rightarrow>
          (let w' = (if repeating tm then w else w\<lparr>timers := (timers w)(t := None)\<rparr>)
           in case action tm of
                SampleTick h \<Rightarrow>
                  (case st of
                     None \<Rightarrow> Thrown (Error ''getStatusAsync'') w'
                   | Some s \<Rightarrow> Returned (onRecordingStatusUpdate s w'))
              | Deadline rec \<Rightarrow> stopRecording rec unload_fails w'
              | ElapsedTick startTime \<Rightarrow> Returned (w'\<lparr>elapsedTime := now - startTime\<rparr>)))"

section \<open>The elapsed-time display\<close>

text \<open>
  The numbers of \<^verbatim>\<open>formatTime\<close> are doubles, and a division rounds its exact quotient
  to the nearest double, ties to the even significand. \<open>to_double\<close> is that rounding
  for 53 bits of precision; the exponent range of doubles is not modelled (the
  quotients below are far from overflow and underflow).
\<close>

definition round_half_even :: "real \<Rightarrow> int" where
  "round_half_even y =
     (let n = \<lfloor>y\<rfloor>; f = y - of_int n
      in if f < 1 / 2 then n else if 1 / 2 < f then n + 1 else if even n then n else n + 1)"

definition to_double :: "real \<Rightarrow> real" where
  "to_double x =
     (if x = 0 then 0
      else (let e = \<lfloor>log 2 \<bar>x\<bar>\<rfloor> - 52
            in sgn x * (of_int (round_half_even (\<bar>x\<bar> / 2 powr of_int e)) * 2 powr of_int e)))"

text \<open>\<^verbatim>\<open>a / b\<close> on an integer-valued double and a non-zero integer constant.\<close>

definition double_div :: "int \<Rightarrow> int \<Rightarrow> real" where
  "double_div a b = to_double (of_int a / of_int b)"

definition Math_floor :: "real \<Rightarrow> int" where
  "Math_floor x = \<lfloor>x\<rfloor>"

text \<open>
  \<^verbatim>\<open>Number.prototype.toString()\<close> on an integer. Up to \<^verbatim>\<open>Number.MAX_SAFE_INTEGER\<close>
  the result is the decimal digits of the integer. Beyond it the digits are the
  shortest ones that read back as the same double, and from \<open>10 ^ 21\<close> the notation
  has an exponent: that part is not modelled, and the result there is \<open>None\<close>.
\<close>

definition digit_char :: "nat \<Rightarrow> char" where
  "digit_char d = ''0123456789'' ! d"

fun decimal :: "nat \<Rightarrow> string" where
  "decimal n = (if n < 10 then [digit_char n] else decimal (n div 10) @ [digit_char (n mod 10)])"

declare decimal.simps [simp del]

definition MAX_SAFE_INTEGER :: int where
  "MAX_SAFE_INTEGER = 2 ^ 53 - 1"

definition Number_toString :: "int \<Rightarrow> string option" where
  "Number_toString i =
     (if \<bar>i\<bar> \<le> MAX_SAFE_INTEGER
      then Some (if i < 0 then CHR ''-'' # decimal (nat (- i)) else decimal (nat i))
      else None)"

text \<open>\<^verbatim>\<open>s.padStart(targetLength, padString)\<close>\<close>

definition padStart :: "nat \<Rightarrow> string \<Rightarrow> string \<Rightarrow> string" where
  "padStart targetLength padString s =
     (if targetLength \<le> length s \<or> padString = [] then s
      else take (targetLength - length s) (concat (replicate (targetLength - length s) padString)) @ s)"

text \<open>
  The remainder \<^verbatim>\<open>a % b\<close> takes the sign of the dividend; on doubles it is exact.
\<close>

definition js_rem :: "int \<Rightarrow> int \<Rightarrow> int" where
  "js_rem a b = sgn a * (\<bar>a\<bar> mod \<bar>b\<bar>)"

text \<open>
  \<^verbatim>\<open>function formatTime(ms)\<close>, lines 120 to 125, on an integer-valued double \<open>ms\<close>.
  The result is \<open>None\<close> where the rendering of a number is not modelled.
\<close>

definition formatTime :: "int \<Rightarrow> string option" where
  "formatTime ms =
     (let seconds = Math_floor (double_div ms 1000);
          minutes = Math_floor (double_div seconds 60);
          remainingSeconds = js_rem seconds 60
      in case Number_toString minutes of
           None \<Rightarrow> None
         | Some m \<Rightarrow>
             (case Number_toString remainingSeconds of
                None \<Rightarrow> None
              | Some r \<Rightarrow> Some (padStart 2 ''0'' m @ '':'' @ padStart 2 ''0'' r)))"

text \<open>
  The rendering the specification describes: the decimal digits, with a \<open>0\<close> in front
  when there is only one.
\<close>

definition pad2 :: "nat \<Rightarrow> string" where
  "pad2 n = (if n < 10 then CHR ''0'' # decimal n else decimal n)"

section \<open>The window as an array in the store\<close>

text \<open>
  Arrays are objects: a variable holds a reference, and whoever holds the reference can
  change the array. The store maps references to array contents; \<open>pitchData_ref\<close> is
  the reference held by the state variable \<^verbatim>\<open>pitchData\<close>.
\<close>

type_synonym addr = nat

record store =
  heap :: "addr \<rightharpoonup> jsnum list"
  next_addr :: addr
  pitchData_ref :: addr

definition array_at :: "store \<Rightarrow> addr \<Rightarrow> jsnum list" where
  "array_at s a = (case heap s a of None \<Rightarrow> [] | Some xs \<Rightarrow> xs)"

definition alloc :: "jsnum list \<Rightarrow> store \<Rightarrow> addr \<times> store" where
  "alloc xs s = (next_addr s, s\<lparr>heap := (heap s)(next_addr s \<mapsto> xs), next_addr := Suc (next_addr s)\<rparr>)"

text \<open>\<^verbatim>\<open>useState([])\<close>, line 15.\<close>

definition initial_store :: store where
  "initial_store = \<lparr>heap = [0 \<mapsto> []], next_addr = 1, pitchData_ref = 0\<rparr>"

text \<open>
  Lines 110 to 118 on the store: the spread builds a new array, \<^verbatim>\<open>slice\<close> builds
  another one, and the state variable takes the reference that the updater returns.
\<close>

definition updatePitchData_store :: "jsnum \<Rightarrow> store \<Rightarrow> store" where
  "updatePitchData_store newPitch s =
     (let currentData = pitchData_ref s;
          (updatedData, s1) = alloc (array_at s currentData @ [newPitch]) s
      in if length (array_at s1 updatedData) > MAX_DATA_POINTS
         then (let (sliced, s2) = alloc (slice_from (- int MAX_DATA_POINTS) (array_at s1 updatedData)) s1
               in s2\<lparr>pitchData_ref := sliced\<rparr>)
         else s1\<lparr>pitchData_ref := updatedData\<rparr>)"

text \<open>
  The \<^verbatim>\<open>data\<close> handed to the chart, line 143:
  \<^verbatim>\<open>pitchData.length > 0 ? pitchData : [0]\<close>.
\<close>

definition chart_data :: "store \<Rightarrow> addr \<times> store" where
  "chart_data s =
     (if length (array_at s (pitchData_ref s)) > 0 then (pitchData_ref s, s)
      else alloc [Num 0] s)"

text \<open>\<^verbatim>\<open>arr.push(v)\<close> through a reference \<open>a\<close>.\<close>

definition Array_push :: "addr \<Rightarrow> jsnum \<Rightarrow> store \<Rightarrow> store" where
  "Array_push a v s = s\<lparr>heap := (heap s)(a \<mapsto> array_at s a @ [v])\<rparr>"

section \<open>Comparing samples\<close>

text \<open>\<^verbatim>\<open>a <= b\<close> on numbers: false as soon as one side is NaN.\<close>

fun js_le :: "jsnum \<Rightarrow> jsnum \<Rightarrow> bool" where
  "js_le NaN b = False"
| "js_le a NaN = False"
| "js_le NegInf b = True"
| "js_le a PosInf = True"
| "js_le (Num x) (Num y) = (x \<le> y)"
| "js_le a b = False"

text \<open>A loudness sample as the data model wants it: a finite number from 0 to 100.\<close>

definition in_0_100 :: "jsnum \<Rightarrow> bool" where
  "in_0_100 v = (case v of Num r \<Rightarrow> 0 \<le> r \<and> r \<le> 100 | _ \<Rightarrow> False)"

text \<open>A run of sampling ticks, one status per tick.\<close>

definition run_ticks :: "status list \<Rightarrow> app \<Rightarrow> app" where
  "run_ticks sts w = foldl (\<lambda>w st. onRecordingStatusUpdate st w) w sts"

section \<open>Runs of the screen\<close>

text \<open>
  What can happen to the mounted screen, one event at a time: a press on the record
  button, a press on the stop button, the teardown, and the runtime delivering a timer.
  Each event carries what the outside world decides for it. An event that throws leaves
  the state it had reached.
\<close>

datatype event =
    Start "handle option" start_outcome int
  | Stop "handle option" bool
  | Teardown bool
  | Fire timer_id "status option" int bool

definition state_of :: "result \<Rightarrow> app" where
  "state_of r = (case r of Returned w \<Rightarrow> w | Thrown e w \<Rightarrow> w)"

fun step :: "event \<Rightarrow> app \<Rightarrow> app" where
  "step (Start rec outcome now) w = state_of (startRecording rec outcome now w)"
| "step (Stop rec unload_fails) w = state_of (stopRecording rec unload_fails w)"
| "step (Teardown unload_fails) w = state_of (teardown unload_fails w)"
| "step (Fire t st now unload_fails) w = state_of (fire t st now unload_fails w)"

definition run :: "event list \<Rightarrow> app \<Rightarrow> app" where
  "run evs w = foldl (\<lambda>w ev. step ev w) w evs"

section \<open>Properties of the normalizer\<close>

lemma clamp_spec_max_min: "lo \<le> hi \<Longrightarrow> clamp_spec lo hi x = max lo (min hi x)"
  by (simp add: clamp_spec_def max_def min_def)

lemma normalizePitch_Num:
  "normalizePitch (Num db) =
     Num (max 0 (min 100 ((((max (- 60) (min (- 10) db) - (- 60)) / 50 * 100) / 100) powr (1 / 2) * 100)))"
proof -
  have "0 \<le> (max (- 60) (min (- 10) db) - (- 60)) / 50 * 100 / 100"
    by (simp add: max_def min_def)
  then show ?thesis
    by (simp add: normalizePitch_def Math_pow_half_def Let_def)
qed

lemma normalizePitch_refines: "normalizePitch (Num db) = Num (normalize_spec db)"
  by (simp add: normalizePitch_Num normalize_spec_def Let_def clamp_spec_max_min powr_half_sqrt)

lemma normalizePitch_at_minus_60: "normalizePitch (Num (- 60)) = Num 0"
  by (simp add: normalizePitch_Num)

lemma normalizePitch_at_minus_10: "normalizePitch (Num (- 10)) = Num 100"
  by (simp add: normalizePitch_Num)

lemma normalizePitch_at_minus_35: "normalizePitch (Num (- 35)) = Num (sqrt (1 / 2) * 100)"
  by (simp add: normalizePitch_Num powr_half_sqrt)

lemma sqrt_half_bounds: "7071 / 10000 < sqrt (1 / 2) \<and> sqrt (1 / 2) < 7072 / (10000::real)"
proof
  show "7071 / 10000 < sqrt (1 / 2)"
    by (rule real_less_rsqrt) (simp add: power2_eq_square)
  show "sqrt (1 / 2) < 7072 / (10000::real)"
    by (rule real_less_lsqrt) (simp_all add: power2_eq_square)
qed

text \<open>
  C1. On every real decibel value \<^verbatim>\<open>normalizePitch\<close> computes the reference pipeline
  (clamp to \<open>[-60, -10]\<close>, rescale linearly to \<open>[0, 100]\<close>, take the square root of
  the fraction and scale it by 100, clamp to \<open>[0, 100]\<close>). It gives exactly 0 at -60,
  exactly 100 at -10, and \<open>sqrt (1/2) * 100\<close> at -35, which lies between 70.71 and
  70.72.
\<close>

theorem normalize_is_reference_pipeline:
  "normalizePitch (Num db) = Num (normalize_spec db)
   \<and> normalizePitch (Num (- 60)) = Num 0
   \<and> normalizePitch (Num (- 10)) = Num 100
   \<and> normalizePitch (Num (- 35)) = Num (sqrt (1 / 2) * 100)
   \<and> 70.71 < sqrt (1 / 2) * 100 \<and> sqrt (1 / 2) * 100 < (70.72 :: real)"
proof (intro conjI)
  show "normalizePitch (Num db) = Num (normalize_spec db)"
    by (rule normalizePitch_refines)
  show "normalizePitch (Num (- 60)) = Num 0"
    by (rule normalizePitch_at_minus_60)
  show "normalizePitch (Num (- 10)) = Num 100"
    by (rule normalizePitch_at_minus_10)
  show "normalizePitch (Num (- 35)) = Num (sqrt (1 / 2) * 100)"
    by (rule normalizePitch_at_minus_35)
  show "70.71 < sqrt (1 / 2) * 100"
    using sqrt_half_bounds by simp
  show "sqrt (1 / 2) * 100 < (70.72 :: real)"
    using sqrt_half_bounds by simp
qed

lemma normalize_spec_mono: "db1 \<le> db2 \<Longrightarrow> normalize_spec db1 \<le> normalize_spec db2"
proof -
  assume le: "db1 \<le> db2"
  let ?c = "\<lambda>db::real. max (- 60) (min (- 10) db)"
  let ?s = "\<lambda>db::real. sqrt ((?c db - (- 60)) / ((- 10) - (- 60)) * 100 / 100) * 100"
  have "?c db1 \<le> ?c db2" using le by (simp add: max_def min_def)
  then have "?s db1 \<le> ?s db2" by simp
  then have "max 0 (min 100 (?s db1)) \<le> max 0 (min 100 (?s db2))"
    by (simp add: max_def min_def)
  then show ?thesis
    by (simp add: normalize_spec_def Let_def clamp_spec_max_min)
qed

text \<open>
  C8. \<^verbatim>\<open>normalizePitch\<close> is monotonically non-decreasing on the dynamic range: for
  decibel values \<open>db1 \<le> db2\<close>, both in \<open>[-60, -10]\<close>, the sample of \<open>db1\<close> is at most
  the sample of \<open>db2\<close>.
\<close>

theorem normalize_monotone:
  "- 60 \<le> db1 \<Longrightarrow> db1 \<le> db2 \<Longrightarrow> db2 \<le> - 10 \<Longrightarrow>
   js_le (normalizePitch (Num db1)) (normalizePitch (Num db2))"
proof -
  assume "db1 \<le> db2"
  then have "normalize_spec db1 \<le> normalize_spec db2"
    by (rule normalize_spec_mono)
  then have "js_le (Num (normalize_spec db1)) (Num (normalize_spec db2))"
    by simp
  then show ?thesis
    by (simp only: normalizePitch_refines)
qed

theorem normalize_monotone_witness:
  "(- 60 :: real) \<le> - 60 \<and> (- 60 :: real) \<le> - 35 \<and> (- 35 :: real) \<le> - 10
   \<and> js_le (normalizePitch (Num (- 60))) (normalizePitch (Num (- 35)))"
  using normalize_monotone [of "- 60" "- 35"] by simp

section \<open>Properties of the window\<close>

lemma updatePitchData_drop:
  "updatePitchData xs v = drop (Suc (length xs) - 600) (xs @ [v])"
proof -
  have "nat (int (length xs) - 599) = length xs - 599" by arith
  then show ?thesis
    by (simp add: updatePitchData_def slice_from_def MAX_DATA_POINTS_def Let_def)
qed

lemma foldl_updatePitchData: "foldl updatePitchData [] vs = drop (length vs - 600) vs"
proof (induction vs rule: rev_induct)
  case Nil
  then show ?case by simp
next
  case (snoc x xs)
  then show ?case
    by (auto simp: updatePitchData_def slice_from_def MAX_DATA_POINTS_def Let_def min_def)
qed

text \<open>
  C2. Appending any sequence \<open>vs\<close> of \<open>N\<close> values, one after the other, to the empty
  window leaves exactly the last \<open>min N 600\<close> of them, oldest first. The length of the
  window is \<open>min N 600\<close>, and after 601 appends its first element is the second value
  appended.
\<close>

theorem window_keeps_last_600:
  "foldl updatePitchData [] vs = drop (length vs - min (length vs) 600) vs
   \<and> length (foldl updatePitchData [] vs) = min (length vs) 600
   \<and> (length vs = 601 \<longrightarrow> hd (foldl updatePitchData [] vs) = vs ! 1)"
proof (intro conjI impI)
  have "length vs - min (length vs) 600 = length vs - 600"
    by (simp add: min_def)
  then show "foldl updatePitchData [] vs = drop (length vs - min (length vs) 600) vs"
    by (simp add: foldl_updatePitchData)
next
  have "length (drop (length vs - 600) vs) = min (length vs) 600"
    by (simp add: min_def)
  then show "length (foldl updatePitchData [] vs) = min (length vs) 600"
    by (simp add: foldl_updatePitchData)
next
  assume n: "length vs = 601"
  then have "foldl updatePitchData [] vs = drop 1 vs"
    by (simp add: foldl_updatePitchData)
  with n show "hd (foldl updatePitchData [] vs) = vs ! 1"
    by (simp add: hd_drop_conv_nth)
qed

theorem window_keeps_last_600_witness:
  "length [0..<601] = 601
   \<and> foldl updatePitchData [] [0..<601] = [1..<601]
   \<and> hd (foldl updatePitchData [] [0..<601]) = 1"
  using window_keeps_last_600 [of "[0..<601]"] by simp

section \<open>Properties of the sampling tick\<close>

lemma typeof_number: "typeof v = ''number'' \<longleftrightarrow> (\<exists>n. v = JSNumber n)"
  by (cases v) (simp_all add: typeof_def)

text \<open>
  C3. A tick whose status has \<^verbatim>\<open>isRecording\<close> true and a metering of type number
  appends exactly one sample, the normalized metering, to the window (the window after
  the tick is the old window followed by that sample, cut to its last 600 entries). A
  tick whose status is not recording, or whose metering is not of type number, returns
  the state it was given: nothing is appended and no placeholder is stored.
\<close>

theorem onSample_appends_one_or_ignores:
  "(status_isRecording st \<and> typeof (status_metering st) = ''number'' \<longrightarrow>
      (\<exists>m. status_metering st = JSNumber m
         \<and> pitch (onRecordingStatusUpdate st w) = Some (normalizePitch m)
         \<and> pitchData (onRecordingStatusUpdate st w) =
             updatePitchData (pitchData w) (normalizePitch m)
         \<and> pitchData (onRecordingStatusUpdate st w) =
             drop (Suc (length (pitchData w)) - 600) (pitchData w @ [normalizePitch m])))
   \<and> (\<not> status_isRecording st \<or> typeof (status_metering st) \<noteq> ''number'' \<longrightarrow>
        onRecordingStatusUpdate st w = w)"
  by (cases "status_metering st")
     (auto simp: onRecordingStatusUpdate_def typeof_def Let_def updatePitchData_drop)

theorem onSample_appends_one_or_ignores_witness:
  "pitchData (onRecordingStatusUpdate
      \<lparr>status_isRecording = True, status_metering = JSNumber (Num (- 10))\<rparr> initial_app) = [Num 100]
   \<and> onRecordingStatusUpdate
        \<lparr>status_isRecording = False, status_metering = JSNumber (Num (- 10))\<rparr> initial_app = initial_app
   \<and> onRecordingStatusUpdate
        \<lparr>status_isRecording = True, status_metering = JSUndefined\<rparr> initial_app = initial_app"
  using onSample_appends_one_or_ignores
          [of "\<lparr>status_isRecording = True, status_metering = JSNumber (Num (- 10))\<rparr>" initial_app]
        onSample_appends_one_or_ignores
          [of "\<lparr>status_isRecording = False, status_metering = JSNumber (Num (- 10))\<rparr>" initial_app]
        onSample_appends_one_or_ignores
          [of "\<lparr>status_isRecording = True, status_metering = JSUndefined\<rparr>" initial_app]
  by (simp add: typeof_def initial_app_def normalizePitch_at_minus_10 updatePitchData_def
      MAX_DATA_POINTS_def)

lemma normalize_spec_range: "0 \<le> normalize_spec db \<and> normalize_spec db \<le> 100"
  by (simp add: normalize_spec_def Let_def clamp_spec_max_min)

lemma normalizePitch_PosInf: "normalizePitch PosInf = Num 100"
  by (simp add: normalizePitch_def Math_pow_half_def Let_def)

lemma normalizePitch_NegInf: "normalizePitch NegInf = Num 0"
  by (simp add: normalizePitch_def Math_pow_half_def Let_def)

lemma normalizePitch_NaN: "normalizePitch NaN = NaN"
  by (simp add: normalizePitch_def Math_pow_half_def Let_def)

lemma normalizePitch_range: "metering \<noteq> NaN \<Longrightarrow> in_0_100 (normalizePitch metering)"
  by (cases metering)
     (simp_all add: normalizePitch_PosInf normalizePitch_NegInf normalizePitch_refines
        normalize_spec_range in_0_100_def)

lemma set_updatePitchData: "set (updatePitchData xs v) \<subseteq> insert v (set xs)"
proof -
  have "set (drop n (xs @ [v])) \<subseteq> insert v (set xs)" for n
    using set_drop_subset [of n "xs @ [v]"] by auto
  then show ?thesis
    by (auto simp: updatePitchData_def slice_from_def Let_def)
qed

lemma onSample_keeps_range:
  assumes "\<forall>v\<in>set (pitchData w). in_0_100 v" and "status_metering st \<noteq> JSNumber NaN"
  shows "\<forall>v\<in>set (pitchData (onRecordingStatusUpdate st w)). in_0_100 v"
proof (cases "status_isRecording st")
  case False
  with assms show ?thesis by (simp add: onRecordingStatusUpdate_def)
next
  case True
  show ?thesis
  proof (cases "status_metering st")
    case (JSNumber m)
    with assms(2) have "m \<noteq> NaN" by simp
    then have "in_0_100 (normalizePitch m)" by (rule normalizePitch_range)
    with assms(1) set_updatePitchData [of "pitchData w" "normalizePitch m"] JSNumber True
    show ?thesis by (auto simp: onRecordingStatusUpdate_def Let_def)
  qed (use assms True in \<open>simp_all add: onRecordingStatusUpdate_def\<close>)
qed

lemma run_ticks_keeps_range:
  "\<forall>v\<in>set (pitchData w). in_0_100 v \<Longrightarrow> \<forall>st\<in>set sts. status_metering st \<noteq> JSNumber NaN \<Longrightarrow>
   \<forall>v\<in>set (pitchData (run_ticks sts w)). in_0_100 v"
proof (induction sts arbitrary: w)
  case Nil
  then show ?case by (simp add: run_ticks_def)
next
  case (Cons st sts)
  have "\<forall>v\<in>set (pitchData (onRecordingStatusUpdate st w)). in_0_100 v"
    using Cons.prems by (intro onSample_keeps_range) simp_all
  with Cons show ?case by (simp add: run_ticks_def)
qed

text \<open>
  C7, as the claim states it, fails: NaN is of type number, so a tick that reports a NaN
  metering passes the check of the tick, and the sample it appends is NaN, which is not
  a finite number from 0 to 100.
\<close>

theorem NaN_metering_is_appended:
  "status_isRecording \<lparr>status_isRecording = True, status_metering = JSNumber NaN\<rparr>
   \<and> typeof (status_metering \<lparr>status_isRecording = True, status_metering = JSNumber NaN\<rparr>) = ''number''
   \<and> pitchData (onRecordingStatusUpdate
        \<lparr>status_isRecording = True, status_metering = JSNumber NaN\<rparr> initial_app) = [NaN]
   \<and> \<not> in_0_100 NaN"
  by (simp add: typeof_def onRecordingStatusUpdate_def normalizePitch_NaN initial_app_def
      updatePitchData_def MAX_DATA_POINTS_def in_0_100_def)

text \<open>
  C7, amended. For every metering value other than NaN (finite, or one of the two
  infinities) \<^verbatim>\<open>normalizePitch\<close> returns a finite number from 0 to 100; a tick whose
  metering is not NaN keeps every sample of the window in that range, and so does any
  run of such ticks, in particular from the empty window of a new session. On NaN the
  normalizer returns NaN.
\<close>

theorem samples_in_range_unless_NaN:
  "(metering \<noteq> NaN \<longrightarrow> in_0_100 (normalizePitch metering))
   \<and> normalizePitch NaN = NaN
   \<and> ((\<forall>v\<in>set (pitchData w). in_0_100 v) \<and> status_metering st \<noteq> JSNumber NaN \<longrightarrow>
        (\<forall>v\<in>set (pitchData (onRecordingStatusUpdate st w)). in_0_100 v))
   \<and> ((\<forall>v\<in>set (pitchData w). in_0_100 v) \<and> (\<forall>st\<in>set sts. status_metering st \<noteq> JSNumber NaN) \<longrightarrow>
        (\<forall>v\<in>set (pitchData (run_ticks sts w)). in_0_100 v))"
  using normalizePitch_range [of metering] normalizePitch_NaN onSample_keeps_range [of w st]
    run_ticks_keeps_range [of w sts]
  by blast

theorem samples_in_range_unless_NaN_witness:
  "PosInf \<noteq> NaN \<and> in_0_100 (normalizePitch PosInf)
   \<and> set (pitchData initial_app) = {}
   \<and> status_metering \<lparr>status_isRecording = True, status_metering = JSNumber (Num (- 10))\<rparr> \<noteq> JSNumber NaN
   \<and> pitchData (run_ticks
        [\<lparr>status_isRecording = True, status_metering = JSNumber (Num (- 10))\<rparr>] initial_app) = [Num 100]
   \<and> in_0_100 (Num 100)"
proof -
  let ?st = "\<lparr>status_isRecording = True, status_metering = JSNumber (Num (- 10))\<rparr>"
  note inst = samples_in_range_unless_NaN [of PosInf initial_app ?st "[?st]"]
  have empty: "set (pitchData initial_app) = {}"
    by (simp add: initial_app_def)
  have ticks: "\<forall>st\<in>set [?st]. status_metering st \<noteq> JSNumber NaN"
    by simp
  have window: "pitchData (run_ticks [?st] initial_app) = [Num 100]"
    by (simp add: initial_app_def run_ticks_def onRecordingStatusUpdate_def
        normalizePitch_at_minus_10 updatePitchData_def MAX_DATA_POINTS_def Let_def)
  have range0: "\<forall>v\<in>set (pitchData initial_app). in_0_100 v"
    by (simp add: empty)
  have "in_0_100 (normalizePitch PosInf)"
    using inst [THEN conjunct1] by simp
  moreover have "\<forall>v\<in>set (pitchData (run_ticks [?st] initial_app)). in_0_100 v"
    using range0 ticks
    by (intro inst [THEN conjunct2, THEN conjunct2, THEN conjunct2, THEN mp] conjI)
  then have "in_0_100 (Num 100)"
    by (simp add: window)
  ultimately show ?thesis
    using empty window by simp
qed

section \<open>Properties of the elapsed-time display\<close>

lemma round_half_even_upper: "of_int (round_half_even y) \<le> y + 1 / 2"
proof (cases "y - of_int \<lfloor>y\<rfloor> < 1 / 2")
  case True
  then have r: "round_half_even y = \<lfloor>y\<rfloor>"
    by (simp add: round_half_even_def Let_def)
  have "real_of_int \<lfloor>y\<rfloor> \<le> y + 1 / 2"
    using of_int_floor_le [of y] by linarith
  then show ?thesis unfolding r .
next
  case False
  then have "round_half_even y \<le> \<lfloor>y\<rfloor> + 1"
    by (simp add: round_half_even_def Let_def)
  then have "real_of_int (round_half_even y) \<le> real_of_int (\<lfloor>y\<rfloor> + 1)"
    by (rule of_int_le_iff [THEN iffD2])
  with False show ?thesis by simp
qed

lemma round_half_even_ge_floor: "\<lfloor>y\<rfloor> \<le> round_half_even y"
  by (simp add: round_half_even_def Let_def)

lemma round_half_even_ge_int: "of_int n \<le> y \<Longrightarrow> n \<le> round_half_even y"
  using round_half_even_ge_floor [of y] by (simp add: le_floor_iff [symmetric])

lemma floor_to_double_div:
  fixes n d :: int and p :: nat
  assumes n: "0 \<le> n" and d: "0 < d" and small: "n < d * 2 ^ p" and prec: "d * 2 ^ p < 2 ^ 54"
  shows "\<lfloor>to_double (of_int n / of_int d)\<rfloor> = n div d"
proof (cases "n = 0")
  case True
  then show ?thesis by (simp add: to_double_def)
next
  case False
  define x :: real where "x = of_int n / of_int d"
  define k where "k = n div d"
  define L where "L = \<lfloor>log 2 x\<rfloor>"
  define j where "j = nat (52 - L)"
  from False n d have xpos: "0 < x" by (simp add: x_def)
  have kx: "of_int k \<le> x"
    using floor_divide_of_int_eq [of n d, where ?'a = real]
    by (simp add: k_def x_def le_floor_iff [symmetric])
  have "n mod d \<le> d - 1" using d by simp
  moreover have "n = k * d + n mod d" by (simp add: k_def)
  ultimately have "n \<le> k * d + d - 1" by linarith
  then have "real_of_int n \<le> real_of_int (k * d + d - 1)" by (rule of_int_le_iff [THEN iffD2])
  then have xk: "x \<le> of_int k + 1 - 1 / of_int d"
    using d by (simp add: x_def field_simps)
  have xp: "x < 2 ^ p"
  proof -
    from small have "real_of_int n < real_of_int (d * 2 ^ p)" by (rule of_int_less_iff [THEN iffD2])
    then show ?thesis using d by (simp add: x_def field_simps)
  qed
  have Lb: "2 powr of_int L \<le> x" "x < 2 powr (of_int L + 1)"
    using floor_log_eq_powr_iff [of x 2 L] xpos by (simp_all add: L_def)
  have "2 powr of_int L < (2::real) powr of_nat p"
    using Lb(1) xp by (simp add: powr_realpow)
  then have "real_of_int L < of_nat p" by simp
  then have Lp: "L < int p" by linarith
  have p53: "p \<le> 53"
  proof -
    have "(1::int) * 2 ^ p \<le> d * 2 ^ p" using d by (intro mult_right_mono) simp_all
    with prec have "(2::int) ^ p < 2 ^ 54" by linarith
    then have "p < 54" by (rule power_less_imp_less_exp [of "2::int", rotated]) simp
    then show ?thesis by simp
  qed
  from Lp p53 have L52: "L \<le> 52" by simp
  then have e: "real_of_int L - 52 = - real j" by (simp add: j_def)
  have u: "2 powr (real_of_int L - 52) = 1 / 2 ^ j"
    unfolding e by (simp add: powr_minus powr_realpow inverse_eq_divide)
  have jp: "53 \<le> j + p" using Lp L52 by (simp add: j_def)
  have half_ulp: "1 / 2 ^ j / 2 < 1 / real_of_int d"
  proof -
    from prec have "real_of_int (d * 2 ^ p) < real_of_int (2 ^ 54)"
      by (rule of_int_less_iff [THEN iffD2])
    then have A: "real_of_int d * 2 ^ p < 2 ^ 54" by simp
    have B: "(2::real) ^ 54 \<le> 2 ^ (j + p + 1)"
      using jp by (intro power_increasing) simp_all
    have C: "(2::real) ^ (j + p + 1) = (2 ^ j * 2) * 2 ^ p"
      by (simp add: power_add)
    from order_less_le_trans [OF A B] have "real_of_int d * 2 ^ p < (2 ^ j * 2) * 2 ^ p"
      unfolding C .
    then have "real_of_int d < 2 ^ j * 2"
      by (rule mult_less_cancel_right_pos [THEN iffD1, rotated]) simp
    then show ?thesis using d by (simp add: field_simps)
  qed
  define m where "m = round_half_even (x * 2 ^ j)"
  have fl: "to_double x = of_int m / 2 ^ j"
    using xpos by (simp add: to_double_def L_def [symmetric] u m_def Let_def)
  have "of_int (k * 2 ^ j) \<le> x * 2 ^ j" using kx by simp
  then have "k * 2 ^ j \<le> m" unfolding m_def by (rule round_half_even_ge_int)
  then have "real_of_int (k * 2 ^ j) \<le> real_of_int m" by (rule of_int_le_iff [THEN iffD2])
  then have lower: "of_int k \<le> to_double x" by (simp add: fl field_simps)
  have "of_int m \<le> x * 2 ^ j + 1 / 2" unfolding m_def by (rule round_half_even_upper)
  then have "to_double x \<le> x + 1 / 2 ^ j / 2" by (simp add: fl field_simps)
  with xk half_ulp have upper: "to_double x < of_int k + 1" by linarith
  from lower upper have "\<lfloor>to_double x\<rfloor> = k" by (rule floor_unique)
  then show ?thesis by (simp add: x_def k_def)
qed

lemma floor_double_div:
  "0 \<le> n \<Longrightarrow> 0 < d \<Longrightarrow> n < d * 2 ^ p \<Longrightarrow> d * 2 ^ p < 2 ^ 54 \<Longrightarrow>
   Math_floor (double_div n d) = n div d"
  by (simp add: Math_floor_def double_div_def floor_to_double_div)

lemma to_double_in_top_binade:
  assumes "2 ^ 52 \<le> x" and "x < 2 ^ 53"
  shows "to_double x = of_int (round_half_even x)"
proof -
  from assms have pos: "0 < x" by simp
  have "\<lfloor>log 2 x\<rfloor> = 52"
    using assms pos floor_log_eq_powr_iff [of x 2 52] by simp
  with pos show ?thesis
    by (simp add: to_double_def)
qed

lemma decimal_not_empty: "decimal n \<noteq> []"
  by (subst decimal.simps) auto

lemma decimal_one_digit: "n < 10 \<Longrightarrow> length (decimal n) = 1"
  by (subst decimal.simps) simp

lemma decimal_more_digits: "\<not> n < 10 \<Longrightarrow> 2 \<le> length (decimal n)"
proof -
  assume a: "\<not> n < 10"
  have "length (decimal (n div 10)) \<noteq> 0" using decimal_not_empty [of "n div 10"] by simp
  then have "1 \<le> length (decimal (n div 10))" by linarith
  with a show ?thesis by (subst decimal.simps) simp
qed

lemma padStart_is_pad2:
  assumes "int n \<le> MAX_SAFE_INTEGER"
  shows "map_option (padStart 2 ''0'') (Number_toString (int n)) = Some (pad2 n)"
proof (cases "n < 10")
  case True
  then show ?thesis
    using assms decimal_one_digit [of n] by (simp add: padStart_def Number_toString_def pad2_def)
next
  case False
  then show ?thesis
    using assms decimal_more_digits [of n] by (simp add: padStart_def Number_toString_def pad2_def)
qed

lemma formatTime_safe:
  assumes "0 \<le> ms" and "ms < 2 ^ 53"
  shows "formatTime ms =
           Some (pad2 (nat (ms div 1000 div 60)) @ '':'' @ pad2 (nat (ms div 1000 mod 60)))"
proof -
  let ?s = "ms div 1000"
  from assms have s: "0 \<le> ?s" "?s < 2 ^ 53"
    by simp_all
  then have m: "0 \<le> ?s div 60" "?s div 60 < 2 ^ 53"
    by simp_all
  have seconds: "Math_floor (double_div ms 1000) = ?s"
    using assms by (intro floor_double_div [where p = 44]) simp_all
  have minutes: "Math_floor (double_div ?s 60) = ?s div 60"
    using s by (intro floor_double_div [where p = 48]) simp_all
  have r: "js_rem ?s 60 = ?s mod 60"
    using s by (cases "?s = 0") (simp_all add: js_rem_def)
  have "map_option (padStart 2 ''0'') (Number_toString (?s div 60)) = Some (pad2 (nat (?s div 60)))"
    using padStart_is_pad2 [of "nat (?s div 60)"] m by (simp add: MAX_SAFE_INTEGER_def)
  then obtain a where a: "Number_toString (?s div 60) = Some a"
    "padStart 2 ''0'' a = pad2 (nat (?s div 60))"
    by auto
  have "map_option (padStart 2 ''0'') (Number_toString (?s mod 60)) = Some (pad2 (nat (?s mod 60)))"
    using padStart_is_pad2 [of "nat (?s mod 60)"] by (simp add: MAX_SAFE_INTEGER_def)
  then obtain b where b: "Number_toString (?s mod 60) = Some b"
    "padStart 2 ''0'' b = pad2 (nat (?s mod 60))"
    by auto
  show ?thesis
    by (simp add: formatTime_def Let_def seconds minutes r a b)
qed

lemma formatTime_60000: "formatTime 60000 = Some ''01:00''"
  using formatTime_safe [of 60000] by (simp add: pad2_def decimal.simps digit_char_def)

lemma formatTime_3660000: "formatTime 3660000 = Some ''61:00''"
  using formatTime_safe [of 3660000] by (simp add: pad2_def decimal.simps digit_char_def)

lemma seconds_of_2_pow_62: "Math_floor (double_div 4611686018427387904 1000) = 4611686018427388"
proof -
  let ?x = "4611686018427387904 / 1000 :: real"
  have fl: "\<lfloor>?x\<rfloor> = 4611686018427387"
    by (rule floor_unique) simp_all
  have "round_half_even ?x = 4611686018427388"
    by (simp add: round_half_even_def Let_def fl)
  moreover have "to_double ?x = of_int (round_half_even ?x)"
    by (rule to_double_in_top_binade) simp_all
  ultimately show ?thesis
    by (simp add: Math_floor_def double_div_def)
qed

lemma minutes_of_2_pow_62: "Math_floor (double_div 4611686018427388 60) = 76861433640456"
proof -
  have "Math_floor (double_div 4611686018427388 60) = 4611686018427388 div 60"
    by (rule floor_double_div [where p = 47]) simp_all
  then show ?thesis by simp
qed

text \<open>
  C10, as the claim states it, fails: \<open>2 ^ 62\<close> is a non-negative integer millisecond
  value, its quotient by 1000 is rounded up to the next double before
  \<^verbatim>\<open>Math.floor\<close>, and \<^verbatim>\<open>formatTime\<close> returns 28 seconds where the formula of the
  claim gives 27.
\<close>

theorem formatTime_rounds_at_2_pow_62:
  "formatTime 4611686018427387904 = Some ''76861433640456:28''
   \<and> pad2 (nat (4611686018427387904 div 1000 div 60)) @ '':'' @
     pad2 (nat (4611686018427387904 div 1000 mod 60)) = ''76861433640456:27''"
  by (simp add: formatTime_def seconds_of_2_pow_62 minutes_of_2_pow_62 Let_def js_rem_def
      Number_toString_def MAX_SAFE_INTEGER_def padStart_def pad2_def decimal.simps digit_char_def)

text \<open>
  C10, amended. For every non-negative integer \<open>ms\<close> below \<open>2 ^ 53\<close>,
  \<^verbatim>\<open>formatTime(ms)\<close> is the minutes \<open>ms div 1000 div 60\<close> and the seconds
  \<open>ms div 1000 mod 60\<close>, each in decimal with a leading zero when below ten, joined by
  a colon. The function has no upper cap: 60000 gives \<open>01:00\<close> and 3660000 gives
  \<open>61:00\<close>.
\<close>

theorem formatTime_minutes_seconds_safe:
  "(0 \<le> ms \<and> ms < 2 ^ 53 \<longrightarrow>
      formatTime ms =
        Some (pad2 (nat (ms div 1000 div 60)) @ '':'' @ pad2 (nat (ms div 1000 mod 60))))
   \<and> formatTime 60000 = Some ''01:00''
   \<and> formatTime 3660000 = Some ''61:00''"
proof (intro conjI impI)
  assume "0 \<le> ms \<and> ms < 2 ^ 53"
  then show "formatTime ms =
      Some (pad2 (nat (ms div 1000 div 60)) @ '':'' @ pad2 (nat (ms div 1000 mod 60)))"
    by (intro formatTime_safe) simp_all
next
  show "formatTime 60000 = Some ''01:00''"
    by (rule formatTime_60000)
next
  show "formatTime 3660000 = Some ''61:00''"
    by (rule formatTime_3660000)
qed

theorem formatTime_minutes_seconds_safe_witness:
  "(0 :: int) \<le> 754321 \<and> (754321 :: int) < 2 ^ 53 \<and> formatTime 754321 = Some ''12:34''
   \<and> pad2 (nat (754321 div 1000 div 60)) @ '':'' @ pad2 (nat (754321 div 1000 mod 60)) = ''12:34''"
  using formatTime_minutes_seconds_safe [of 754321]
  by (simp add: pad2_def decimal.simps digit_char_def)

section \<open>Properties of the controller\<close>

lemma stop_result:
  "stopRecording rec fails w =
     Returned (w\<lparr>intervalRef := None, timerRef := None,
        timers := (\<lambda>x. if Some x = intervalRef w \<or> Some x = map_option timeout (timerRef w)
                          \<or> Some x = map_option interval (timerRef w) then None else timers w x),
        unload_calls := unload_calls w @ (case rec of None \<Rightarrow> [] | Some h \<Rightarrow> [h]),
        console := console w @ (if fails \<and> rec \<noteq> None then [''Error stopping recording:''] else []),
        recording := None, isRecording := False\<rparr>)"
  by (cases rec; cases "intervalRef w"; cases "timerRef w")
     (auto simp: stopRecording_def stopAndUnloadAsync_def backend_call_def try_catch_def
        bind_def console_error_def clearInterval_def clearTimeout_def Let_def fun_eq_iff
        intro!: app.equality)

lemma start_result:
  "startRecording rec Started now w =
     Returned (w\<lparr>next_handle := Suc (next_handle w), recording := Some (next_handle w),
        isRecording := True, pitchData := [], elapsedTime := 0,
        timers := (timers w)
          (next_timer w \<mapsto> \<lparr>repeating = True, delay = REFRESH_INTERVAL, action = SampleTick (next_handle w)\<rparr>,
           Suc (next_timer w) \<mapsto> \<lparr>repeating = False, delay = RECORDING_TIME_LIMIT, action = Deadline rec\<rparr>,
           Suc (Suc (next_timer w)) \<mapsto> \<lparr>repeating = True, delay = 1000, action = ElapsedTick now\<rparr>),
        next_timer := Suc (Suc (Suc (next_timer w))),
        intervalRef := Some (next_timer w),
        timerRef := Some \<lparr>timeout = Suc (next_timer w), interval = Suc (Suc (next_timer w))\<rparr>\<rparr>)"
  by (simp add: startRecording_def try_catch_def bind_def backend_call_def setInterval_def
      setTimeout_def schedule_def Let_def)










lemma session_started:
  "state_of (startRecording None Started 0 initial_app) =
     initial_app\<lparr>next_handle := Suc 0, recording := Some 0,
        isRecording := True, pitchData := [], elapsedTime := 0,
        timers := [Suc 0 \<mapsto> \<lparr>repeating = True, delay = REFRESH_INTERVAL, action = SampleTick 0\<rparr>,
           Suc (Suc 0) \<mapsto> \<lparr>repeating = False, delay = RECORDING_TIME_LIMIT, action = Deadline None\<rparr>,
           Suc (Suc (Suc 0)) \<mapsto> \<lparr>repeating = True, delay = 1000, action = ElapsedTick 0\<rparr>],
        next_timer := Suc (Suc (Suc (Suc 0))),
        intervalRef := Some (Suc 0),
        timerRef := Some \<lparr>timeout = Suc (Suc 0), interval = Suc (Suc (Suc 0))\<rparr>\<rparr>"
  by (simp add: start_result state_of_def initial_app_def)

lemma state_of_Returned: "state_of (Returned w) = w"
  by (simp add: state_of_def)

lemma initial_logs: "unload_calls initial_app = []" "console initial_app = []"
  by (simp_all add: initial_app_def)

lemma stop_idle_noop:
  "intervalRef w = None \<Longrightarrow> timerRef w = None \<Longrightarrow> recording w = None \<Longrightarrow> \<not> isRecording w \<Longrightarrow>
   stopRecording None fails w = Returned w"
  by (simp add: stopRecording_def bind_def)

text \<open>
  What \<^verbatim>\<open>stopRecording\<close> does for every closure and every backend outcome: it
  returns, a rejection of \<^verbatim>\<open>stopAndUnloadAsync\<close> is logged and not passed on, the
  handle is cleared and \<^verbatim>\<open>isRecording\<close> is false; a further stop by a closure that
  sees the cleared handle, or by the teardown, changes nothing, and so does a stop on
  the freshly mounted screen.
\<close>

lemma stop_returns_and_clears:
  "\<exists>w1. stopRecording rec fails w = Returned w1
        \<and> recording w1 = None \<and> \<not> isRecording w1
        \<and> unload_calls w1 = unload_calls w @ (case rec of None \<Rightarrow> [] | Some h \<Rightarrow> [h])
        \<and> console w1 =
            console w @ (if fails \<and> rec \<noteq> None then [''Error stopping recording:''] else [])
        \<and> stopRecording (recording w1) fails' w1 = Returned w1
        \<and> teardown fails' w1 = Returned w1
        \<and> stopRecording None fails initial_app = Returned initial_app
        \<and> teardown fails initial_app = Returned initial_app"
proof -
  obtain w1 where w1: "stopRecording rec fails w = Returned w1"
    by (simp add: stop_result)
  then have f: "intervalRef w1 = None" "timerRef w1 = None" "recording w1 = None" "\<not> isRecording w1"
    "unload_calls w1 = unload_calls w @ (case rec of None \<Rightarrow> [] | Some h \<Rightarrow> [h])"
    "console w1 =
       console w @ (if fails \<and> rec \<noteq> None then [''Error stopping recording:''] else [])"
    by (auto simp: stop_result)
  then have again: "stopRecording None fails' w1 = Returned w1"
    by (simp add: stop_idle_noop)
  have init: "stopRecording None fails initial_app = Returned initial_app"
    by (rule stop_idle_noop) (simp_all add: initial_app_def)
  show ?thesis
    using w1 f again init by (simp add: teardown_def)
qed

text \<open>
  C4. A second stop in a row is meant to be a no-op that releases nothing. The program
  does otherwise when the second call comes from the closure that made the first: after
  a start the render holds handle 0 in \<^verbatim>\<open>recording\<close>, the stop button of that render
  is pressed twice, and \<^verbatim>\<open>stopAndUnloadAsync\<close> is called on handle 0 twice. The second
  call is not a no-op, and when the backend rejects the second release an error line is
  written.
\<close>

theorem second_stop_by_same_closure_releases_again:
  "recording (run [Start None Started 0] initial_app) = Some 0
   \<and> unload_calls (run [Start None Started 0, Stop (Some 0) False] initial_app) = [0]
   \<and> unload_calls
        (run [Start None Started 0, Stop (Some 0) False, Stop (Some 0) False] initial_app) = [0, 0]
   \<and> run [Start None Started 0, Stop (Some 0) False, Stop (Some 0) False] initial_app \<noteq>
       run [Start None Started 0, Stop (Some 0) False] initial_app
   \<and> console
        (run [Start None Started 0, Stop (Some 0) False, Stop (Some 0) True] initial_app) =
       [''Error stopping recording:'']"
proof -
  have started: "run [Start None Started 0] initial_app =
      state_of (startRecording None Started 0 initial_app)"
    by (simp add: run_def)
  have once: "unload_calls (run [Start None Started 0, Stop (Some 0) False] initial_app) = [0]"
    by (simp add: run_def session_started stop_result state_of_Returned initial_logs)
  have twice: "unload_calls
      (run [Start None Started 0, Stop (Some 0) False, Stop (Some 0) False] initial_app) = [0, 0]"
    by (simp add: run_def session_started stop_result state_of_Returned initial_logs)
  have logged: "console
      (run [Start None Started 0, Stop (Some 0) False, Stop (Some 0) True] initial_app) =
      [''Error stopping recording:'']"
    by (simp add: run_def session_started stop_result state_of_Returned initial_logs)
  from once twice
  have "run [Start None Started 0, Stop (Some 0) False, Stop (Some 0) False] initial_app \<noteq>
      run [Start None Started 0, Stop (Some 0) False] initial_app"
    by auto
  then show ?thesis
    using once twice logged by (simp add: started session_started)
qed



section \<open>Properties of the window in the store\<close>


lemma updatePitchData_store_result:
  "updatePitchData_store v s =
     (let xs = array_at s (pitchData_ref s) @ [v] in
      if length xs > MAX_DATA_POINTS
      then s\<lparr>heap := (heap s)(next_addr s \<mapsto> xs, Suc (next_addr s) \<mapsto> slice_from (- int MAX_DATA_POINTS) xs),
             next_addr := Suc (Suc (next_addr s)), pitchData_ref := Suc (next_addr s)\<rparr>
      else s\<lparr>heap := (heap s)(next_addr s \<mapsto> xs), next_addr := Suc (next_addr s),
             pitchData_ref := next_addr s\<rparr>)"
  by (simp add: updatePitchData_store_def alloc_def array_at_def Let_def)

lemma store_after_one_append: "updatePitchData_store (Num 5) initial_store =
  \<lparr>heap = [0 \<mapsto> [], 1 \<mapsto> [Num 5]], next_addr = 2, pitchData_ref = 1\<rparr>"
  by (simp add: updatePitchData_store_result initial_store_def array_at_def MAX_DATA_POINTS_def Let_def)

text \<open>
  C9, as the claim states it, fails: after one append the reference handed to the chart
  is the reference the state variable holds, and a \<^verbatim>\<open>push\<close> through the handed
  reference changes the contents of the window from one sample to two.
\<close>

theorem chart_can_change_window:
  "fst (chart_data (updatePitchData_store (Num 5) initial_store)) =
     pitchData_ref (updatePitchData_store (Num 5) initial_store)
   \<and> array_at (updatePitchData_store (Num 5) initial_store)
        (pitchData_ref (updatePitchData_store (Num 5) initial_store)) = [Num 5]
   \<and> array_at
        (Array_push (fst (chart_data (updatePitchData_store (Num 5) initial_store))) (Num 7)
           (snd (chart_data (updatePitchData_store (Num 5) initial_store))))
        (pitchData_ref
           (Array_push (fst (chart_data (updatePitchData_store (Num 5) initial_store))) (Num 7)
              (snd (chart_data (updatePitchData_store (Num 5) initial_store))))) = [Num 5, Num 7]"
  by (simp add: store_after_one_append chart_data_def array_at_def Array_push_def)

text \<open>
  C9, amended. An append never changes an array that existed before it: the updater
  builds new arrays, every reference handed out earlier still reads what it read, and
  the window moves to a fresh reference that holds the old contents with the sample
  added (cut to the last 600). The sequence handed to the chart is the window's own
  array, by reference, whenever the window is not empty; for an empty window it is a
  fresh array \<open>[0]\<close>.
\<close>

theorem append_is_fresh_and_chart_shares_window:
  "(a < next_addr s \<longrightarrow> heap (updatePitchData_store v s) a = heap s a)
   \<and> next_addr s \<le> pitchData_ref (updatePitchData_store v s)
   \<and> array_at (updatePitchData_store v s) (pitchData_ref (updatePitchData_store v s)) =
        updatePitchData (array_at s (pitchData_ref s)) v
   \<and> (array_at s (pitchData_ref s) \<noteq> [] \<longrightarrow> chart_data s = (pitchData_ref s, s))
   \<and> (array_at s (pitchData_ref s) = [] \<longrightarrow>
        fst (chart_data s) = next_addr s
        \<and> array_at (snd (chart_data s)) (fst (chart_data s)) = [Num 0]
        \<and> pitchData_ref (snd (chart_data s)) = pitchData_ref s)"
  by (auto simp: updatePitchData_store_result updatePitchData_def chart_data_def alloc_def
      array_at_def Let_def)

theorem append_is_fresh_and_chart_shares_window_witness:
  "(0 :: nat) < next_addr initial_store
   \<and> heap (updatePitchData_store (Num 5) initial_store) 0 = heap initial_store 0
   \<and> array_at (updatePitchData_store (Num 5) initial_store)
        (pitchData_ref (updatePitchData_store (Num 5) initial_store)) \<noteq> []
   \<and> chart_data (updatePitchData_store (Num 5) initial_store) =
        (pitchData_ref (updatePitchData_store (Num 5) initial_store),
         updatePitchData_store (Num 5) initial_store)
   \<and> array_at initial_store (pitchData_ref initial_store) = []
   \<and> fst (chart_data initial_store) = next_addr initial_store"
proof -
  let ?s1 = "updatePitchData_store (Num 5) initial_store"
  note at_start = append_is_fresh_and_chart_shares_window [of 0 initial_store "Num 5"]
  note after_one = append_is_fresh_and_chart_shares_window [of 0 ?s1 "Num 5"]
  have old: "(0 :: nat) < next_addr initial_store"
    by (simp add: initial_store_def)
  have empty: "array_at initial_store (pitchData_ref initial_store) = []"
    by (simp add: initial_store_def array_at_def)
  have filled: "array_at ?s1 (pitchData_ref ?s1) \<noteq> []"
    by (simp add: store_after_one_append array_at_def)
  have "heap ?s1 0 = heap initial_store 0"
    using old by (intro at_start [THEN conjunct1, THEN mp])
  moreover have "chart_data ?s1 = (pitchData_ref ?s1, ?s1)"
    using filled
    by (intro after_one [THEN conjunct2, THEN conjunct2, THEN conjunct2, THEN conjunct1, THEN mp])
  moreover have "fst (chart_data initial_store) = next_addr initial_store"
    using at_start [THEN conjunct2, THEN conjunct2, THEN conjunct2, THEN conjunct2, THEN mp,
        OF empty]
    by simp
  ultimately show ?thesis
    using old empty filled by simp
qed

end
